theory Spec2Isabelle
  imports Main "HOL-Library.Word"
begin

section \<open>The settlement contract: contracts/ArbritageExecutor.sol\<close>

text \<open>
  Solidity's value types: an \<open>address\<close> is 160 bits, a \<open>uint256\<close> is 256 bits and
  \<open>bytes\<close> is a byte string.
\<close>

type_synonym address = "160 word"
type_synonym uint256 = "256 word"
type_synonym bytes = "8 word list"

text \<open>The two events the contract declares, with their fields in declaration order.\<close>

datatype event =
    ArbitrageExecuted address address address uint256 uint256
  | FundsWithdrawn address address uint256

text \<open>
  The ways an invocation can fail: the access-control error of the \<open>onlyOwner\<close> modifier,
  a failed \<open>require\<close> with its message, a high-level external call that reverts (the
  revert bubbles up), and the arithmetic panic of checked subtraction.
\<close>

datatype error =
    OwnableUnauthorizedAccount address
  | Revert string
  | ExternalCallReverted
  | Panic

text \<open>
  The external calls an invocation makes, in the order it makes them: the balance query
  \<open>IERC20(token).balanceOf(account)\<close>, the low-level \<open>target.call(data)\<close>, and the two
  token calls \<open>transfer\<close> and \<open>approve\<close>.
\<close>

datatype ext_call =
    BalanceOfCall address address
  | LowLevelCall address bytes
  | TransferCall address address uint256
  | ApproveCall address address uint256

text \<open>
  The state of the chain as the contract sees it: its own storage (the owner slot inherited
  from \<open>Ownable\<close> and the mapping \<open>approvedDexRouters\<close>; an unset mapping entry reads
  \<open>false\<close>) and the state \<open>chain\<close> of every other account, of a type the contract
  knows nothing about.
\<close>

record 'e world =
  owner :: address
  approvedDexRouters :: "address \<Rightarrow> bool"
  chain :: 'e

text \<open>
  The behaviour of the other contracts is a parameter. An external call runs on the whole
  world, so a callee may re-enter this contract.
  \<^item> \<open>self\<close> is \<open>address(this)\<close>;
  \<^item> \<open>ext_balanceOf w token account\<close> is the view call \<open>IERC20(token).balanceOf(account)\<close>:
    \<open>None\<close> when it reverts;
  \<^item> \<open>ext_call w target data\<close> is \<open>target.call(data)\<close>: \<open>None\<close> when the call signals
    failure (the EVM has then undone the callee's effects, so the world is the one before the
    call), \<open>Some w'\<close> when it succeeds and leaves the world \<open>w'\<close>;
  \<^item> \<open>ext_transfer w token to amount\<close> and \<open>ext_approve w token spender amount\<close> are
    the high-level calls \<open>IERC20(token).transfer(to, amount)\<close> and
    \<open>IERC20(token).approve(spender, amount)\<close>: \<open>None\<close> when the call reverts, otherwise the
    boolean the token returns and the world it leaves.
\<close>

record 'e env =
  self :: address
  ext_balanceOf :: "'e world \<Rightarrow> address \<Rightarrow> address \<Rightarrow> uint256 option"
  ext_call :: "'e world \<Rightarrow> address \<Rightarrow> bytes \<Rightarrow> 'e world option"
  ext_transfer :: "'e world \<Rightarrow> address \<Rightarrow> address \<Rightarrow> uint256 \<Rightarrow> (bool \<times> 'e world) option"
  ext_approve :: "'e world \<Rightarrow> address \<Rightarrow> address \<Rightarrow> uint256 \<Rightarrow> (bool \<times> 'e world) option"

text \<open>
  What one invocation of an entry point does: it fails with an error or completes with a new
  world; it emits events (kept only when it completes); and it has made a sequence of
  external calls, recorded also when it fails afterwards.
\<close>

record 'e result =
  outcome :: "error + 'e world"
  events :: "event list"
  calls :: "ext_call list"

definition failed :: "error \<Rightarrow> ext_call list \<Rightarrow> 'e result" where
  "failed e cs = \<lparr>outcome = Inl e, events = [], calls = cs\<rparr>"

definition completed :: "'e world \<Rightarrow> event list \<Rightarrow> ext_call list \<Rightarrow> 'e result" where
  "completed w evs cs = \<lparr>outcome = Inr w, events = evs, calls = cs\<rparr>"

text \<open>
  A transaction is atomic: the world that persists after an invocation as a transaction is
  the new world when the invocation completes and the world before it when it fails.
\<close>

definition transact :: "'e world \<Rightarrow> 'e result \<Rightarrow> 'e world" where
  "transact w r = (case outcome r of Inl e \<Rightarrow> w | Inr w' \<Rightarrow> w')"

text \<open>
  Modelled from the spec: the \<open>onlyOwner\<close> modifier of the imported OpenZeppelin contract
  \<open>Ownable\<close>, which is not among the sources. The spec's owner-only access-control
  discipline: a caller that is not the owner fails with an authorization error. The
  constructor \<open>Ownable(msg.sender)\<close> makes the deployer the owner.
\<close>

definition onlyOwner :: "'e world \<Rightarrow> address \<Rightarrow> error option" where
  "onlyOwner w sender =
     (if owner w \<noteq> sender then Some (OwnableUnauthorizedAccount sender) else None)"

definition constructor :: "address \<Rightarrow> 'e \<Rightarrow> 'e world" where
  "constructor sender c = \<lparr>owner = sender, approvedDexRouters = (\<lambda>r. False), chain = c\<rparr>"

text \<open>\<open>setDexRouterApproval(router, approved)\<close>, called by \<open>sender\<close>.\<close>

definition setDexRouterApproval ::
  "address \<Rightarrow> address \<Rightarrow> bool \<Rightarrow> 'e world \<Rightarrow> 'e result" where
  "setDexRouterApproval sender router approved w =
     (case onlyOwner w sender of
        Some e \<Rightarrow> failed e []
      | None \<Rightarrow>
          completed (w\<lparr>approvedDexRouters := (approvedDexRouters w)(router := approved)\<rparr>) [] [])"

text \<open>Solidity 0.8 subtraction is checked: it panics instead of wrapping around.\<close>

definition checked_sub :: "uint256 \<Rightarrow> uint256 \<Rightarrow> uint256 option" where
  "checked_sub a b = (if a < b then None else Some (a - b))"

text \<open>
  \<open>executeArbitrage(token, buyDex, sellDex, buyData, sellData, amount)\<close>, called by
  \<open>sender\<close>. Each \<open>require\<close> and each external call is one branch, in the order of the
  source.
\<close>

definition executeArbitrage ::
  "'e env \<Rightarrow> address \<Rightarrow> address \<Rightarrow> address \<Rightarrow> address \<Rightarrow> bytes \<Rightarrow> bytes \<Rightarrow> uint256 \<Rightarrow>
   'e world \<Rightarrow> 'e result" where
  "executeArbitrage env sender token buyDex sellDex buyData sellData amount w =
     (case onlyOwner w sender of
        Some e \<Rightarrow> failed e []
      | None \<Rightarrow>
     if \<not> approvedDexRouters w buyDex then failed (Revert ''Buy DEX not approved'') []
     else if \<not> approvedDexRouters w sellDex then failed (Revert ''Sell DEX not approved'') []
     else
       let c1 = [BalanceOfCall token (self env)] in
       case ext_balanceOf env w token (self env) of
         None \<Rightarrow> failed ExternalCallReverted c1
       | Some initialBalance \<Rightarrow>
       let c2 = c1 @ [LowLevelCall buyDex buyData] in
       case ext_call env w buyDex buyData of
         None \<Rightarrow> failed (Revert ''Buy transaction failed'') c2
       | Some w1 \<Rightarrow>
       let c3 = c2 @ [LowLevelCall sellDex sellData] in
       case ext_call env w1 sellDex sellData of
         None \<Rightarrow> failed (Revert ''Sell transaction failed'') c3
       | Some w2 \<Rightarrow>
       let c4 = c3 @ [BalanceOfCall token (self env)] in
       case ext_balanceOf env w2 token (self env) of
         None \<Rightarrow> failed ExternalCallReverted c4
       | Some finalBalance \<Rightarrow>
       if \<not> finalBalance > initialBalance then failed (Revert ''No profit generated'') c4
       else
         case checked_sub finalBalance initialBalance of
           None \<Rightarrow> failed Panic c4
         | Some profit \<Rightarrow>
             completed w2 [ArbitrageExecuted token buyDex sellDex amount profit] c4)"

text \<open>
  \<open>withdrawFunds(token, to, amount)\<close>, called by \<open>sender\<close>. The boolean that \<open>transfer\<close>
  returns is dropped: the statement is an expression statement.
\<close>

definition withdrawFunds ::
  "'e env \<Rightarrow> address \<Rightarrow> address \<Rightarrow> address \<Rightarrow> uint256 \<Rightarrow> 'e world \<Rightarrow> 'e result" where
  "withdrawFunds env sender token to amount w =
     (case onlyOwner w sender of
        Some e \<Rightarrow> failed e []
      | None \<Rightarrow>
     let c1 = [TransferCall token to amount] in
     case ext_transfer env w token to amount of
       None \<Rightarrow> failed ExternalCallReverted c1
     | Some (ok, w1) \<Rightarrow> completed w1 [FundsWithdrawn token to amount] c1)"

text \<open>\<open>approveToken(token, spender, amount)\<close>, called by \<open>sender\<close>.\<close>

definition approveToken ::
  "'e env \<Rightarrow> address \<Rightarrow> address \<Rightarrow> address \<Rightarrow> uint256 \<Rightarrow> 'e world \<Rightarrow> 'e result" where
  "approveToken env sender token spender amount w =
     (case onlyOwner w sender of
        Some e \<Rightarrow> failed e []
      | None \<Rightarrow>
     let c1 = [ApproveCall token spender amount] in
     case ext_approve env w token spender amount of
       None \<Rightarrow> failed ExternalCallReverted c1
     | Some (ok, w1) \<Rightarrow> completed w1 [] c1)"

text \<open>
  The errors the spec calls authorization errors: a caller that is not the owner, and a
  router that is not approved.
\<close>

fun is_authorization_error :: "error \<Rightarrow> bool" where
  "is_authorization_error (OwnableUnauthorizedAccount a) = True"
| "is_authorization_error (Revert m) =
     (m = ''Buy DEX not approved'' \<or> m = ''Sell DEX not approved'')"
| "is_authorization_error ExternalCallReverted = False"
| "is_authorization_error Panic = False"

subsection \<open>A small chain to run the contract on\<close>

text \<open>
  One token at address \<open>0x70\<close>, whose only holder of interest is the contract at \<open>0xC0\<close>;
  the rest of the chain is the contract's balance of that token. Router \<open>0xD1\<close> pays the
  contract one token per byte of call data; router \<open>0xD2\<close> takes one token per byte and
  fails when the contract holds fewer; any other target fails. The token's \<open>transfer\<close>
  returns \<open>false\<close> and moves nothing when the balance is too small.
\<close>

definition demo_env :: "uint256 env" where
  "demo_env =
     \<lparr>self = 0xC0,
      ext_balanceOf = (\<lambda>w token account.
         if token = 0x70 then Some (if account = 0xC0 then chain w else 0) else None),
      ext_call = (\<lambda>w target data.
         if target = 0xD1 then Some (w\<lparr>chain := chain w + of_nat (length data)\<rparr>)
         else if target = 0xD2 \<and> of_nat (length data) \<le> chain w
           then Some (w\<lparr>chain := chain w - of_nat (length data)\<rparr>)
         else None),
      ext_transfer = (\<lambda>w token to amount.
         if token \<noteq> 0x70 then None
         else if amount \<le> chain w then Some (True, w\<lparr>chain := chain w - amount\<rparr>)
         else Some (False, w)),
      ext_approve = (\<lambda>w token spender amount.
         if token \<noteq> 0x70 then None else Some (True, w))\<rparr>"

definition demo_world :: "uint256 world" where
  "demo_world =
     \<lparr>owner = 0xA0,
      approvedDexRouters = (\<lambda>r. r = 0xD1 \<or> r = 0xD2 \<or> r = 0xD3),
      chain = 100\<rparr>"

section \<open>The dashboards: pages/index.js and frontend/app/page.jsx\<close>

text \<open>
  Both files define a React component \<open>Dashboard\<close> whose WebSocket handler
  \<open>ws.onmessage\<close> updates four pieces of state. The handlers only move JavaScript values
  around, read properties of them and test them, so the type \<open>'v\<close> of JavaScript values and
  the three operations the handlers apply to them are parameters:
  \<^item> \<open>get_prop v k\<close> is the property read \<open>v[k]\<close> (\<open>v.k\<close>), a \<open>TypeError\<close> when \<open>v\<close> is
    \<open>null\<close> or \<open>undefined\<close>;
  \<^item> \<open>truthy v\<close> is the conversion of \<open>v\<close> to a boolean in a condition;
  \<^item> \<open>strict_eq_string v s\<close> is \<open>v === s\<close> for a string literal \<open>s\<close>.
\<close>

datatype js_error = SyntaxError | TypeError

record 'v js_runtime =
  get_prop :: "'v \<Rightarrow> string \<Rightarrow> js_error + 'v"
  truthy :: "'v \<Rightarrow> bool"
  strict_eq_string :: "'v \<Rightarrow> string \<Rightarrow> bool"

text \<open>The object literal \<open>{ timestamp, prices }\<close> pushed on the price history.\<close>

record 'v history_entry =
  timestamp :: string
  prices :: 'v

text \<open>
  The state the handler writes: the four \<open>useState\<close> cells with a setter it calls. The
  three lists are arrays, as they are initially and after every update by the handler.
\<close>

record 'v dashboard =
  opportunities :: "'v list"
  trades :: "'v list"
  marketData :: 'v
  priceHistory :: "'v history_entry list"

text \<open>
  \<open>Array.prototype.slice(start, end)\<close> as ECMAScript defines it: a negative index counts
  from the end, both indices are clamped to the array, \<open>end\<close> defaults to the length, and
  the result is a new array.
\<close>

definition slice :: "'a list \<Rightarrow> int \<Rightarrow> int option \<Rightarrow> 'a list" where
  "slice xs start fin =
     (let len = int (length xs);
          k = (if start < 0 then max (len + start) 0 else min start len);
          relativeEnd = (case fin of None \<Rightarrow> len | Some e \<Rightarrow> e);
          final = (if relativeEnd < 0 then max (len + relativeEnd) 0 else min relativeEnd len)
      in take (nat (final - k)) (drop (nat k) xs))"

text \<open>
  A handler returns the state it leaves and the exception it throws, if any: a state setter
  called before the exception has taken effect. Statements run in sequence until one throws.
\<close>

type_synonym 'v handled = "'v dashboard \<times> js_error option"

definition and_then :: "'v handled \<Rightarrow> ('v dashboard \<Rightarrow> 'v handled) \<Rightarrow> 'v handled" where
  "and_then r f = (case r of (st, Some e) \<Rightarrow> (st, Some e) | (st, None) \<Rightarrow> f st)"

subsection \<open>pages/index.js\<close>

text \<open>The three updater functions passed to the state setters.\<close>

definition index_setPriceHistory ::
  "string \<Rightarrow> 'v \<Rightarrow> 'v history_entry list \<Rightarrow> 'v history_entry list" where
  "index_setPriceHistory now p prev =
     (let newHistory = prev @ [\<lparr>timestamp = now, prices = p\<rparr>]
      in if length newHistory > 20
         then slice newHistory (int (length newHistory) - 20) None
         else newHistory)"

definition index_setOpportunities :: "'v \<Rightarrow> 'v list \<Rightarrow> 'v list" where
  "index_setOpportunities d prev =
     (let newOpportunities = d # prev
      in if length newOpportunities > 10 then slice newOpportunities 0 (Some 10)
         else newOpportunities)"

definition index_setTrades :: "'v \<Rightarrow> 'v list \<Rightarrow> 'v list" where
  "index_setTrades d prev =
     (let newTrades = d # prev
      in if length newTrades > 10 then slice newTrades 0 (Some 10) else newTrades)"

text \<open>
  The three \<open>if\<close> statements of the handler, on the parsed message \<open>data\<close>.
  \<open>selectedPair\<close> is the pair the component had selected when it opened the socket and
  \<open>now\<close> is what \<open>new Date().toLocaleTimeString()\<close> returns. Reading a property of
  parsed data has no effect, so \<open>data.data\<close>, which the source reads three times, is read
  once.
\<close>

definition index_market_update ::
  "'v js_runtime \<Rightarrow> string \<Rightarrow> string \<Rightarrow> 'v \<Rightarrow> 'v dashboard \<Rightarrow> 'v handled" where
  "index_market_update rt selectedPair now data st =
     (case get_prop rt data ''type'' of
        Inl e \<Rightarrow> (st, Some e)
      | Inr ty \<Rightarrow>
     if \<not> strict_eq_string rt ty ''market_update'' then (st, None)
     else
       case get_prop rt data ''data'' of
         Inl e \<Rightarrow> (st, Some e)
       | Inr d \<Rightarrow>
       let st1 = st\<lparr>marketData := d\<rparr> in
       case get_prop rt d selectedPair of
         Inl e \<Rightarrow> (st1, Some e)
       | Inr q \<Rightarrow>
       if \<not> truthy rt q then (st1, None)
       else
         case get_prop rt d selectedPair of
           Inl e \<Rightarrow> (st1, Some e)
         | Inr q' \<Rightarrow>
         case get_prop rt q' ''prices'' of
           Inl e \<Rightarrow> (st1, Some e)
         | Inr p \<Rightarrow>
             (st1\<lparr>priceHistory := index_setPriceHistory now p (priceHistory st1)\<rparr>, None))"

definition index_arbitrage_opportunity ::
  "'v js_runtime \<Rightarrow> 'v \<Rightarrow> 'v dashboard \<Rightarrow> 'v handled" where
  "index_arbitrage_opportunity rt data st =
     (case get_prop rt data ''type'' of
        Inl e \<Rightarrow> (st, Some e)
      | Inr ty \<Rightarrow>
     if \<not> strict_eq_string rt ty ''arbitrage_opportunity'' then (st, None)
     else
       case get_prop rt data ''data'' of
         Inl e \<Rightarrow> (st, Some e)
       | Inr d \<Rightarrow> (st\<lparr>opportunities := index_setOpportunities d (opportunities st)\<rparr>, None))"

definition index_trade_execution ::
  "'v js_runtime \<Rightarrow> 'v \<Rightarrow> 'v dashboard \<Rightarrow> 'v handled" where
  "index_trade_execution rt data st =
     (case get_prop rt data ''type'' of
        Inl e \<Rightarrow> (st, Some e)
      | Inr ty \<Rightarrow>
     if \<not> strict_eq_string rt ty ''trade_execution'' then (st, None)
     else
       case get_prop rt data ''data'' of
         Inl e \<Rightarrow> (st, Some e)
       | Inr d \<Rightarrow> (st\<lparr>trades := index_setTrades d (trades st)\<rparr>, None))"

text \<open>
  \<open>ws.onmessage\<close> of pages/index.js. \<open>parsed\<close> is the outcome of
  \<open>JSON.parse(event.data)\<close>: the parsed value, or the exception it throws.
\<close>

definition index_onmessage ::
  "'v js_runtime \<Rightarrow> string \<Rightarrow> string \<Rightarrow> js_error + 'v \<Rightarrow> 'v dashboard \<Rightarrow> 'v handled" where
  "index_onmessage rt selectedPair now parsed st =
     (case parsed of
        Inl e \<Rightarrow> (st, Some e)
      | Inr data \<Rightarrow>
          and_then (and_then (index_market_update rt selectedPair now data st)
                      (index_arbitrage_opportunity rt data))
            (index_trade_execution rt data))"

subsection \<open>frontend/app/page.jsx\<close>

definition page_setPriceHistory ::
  "string \<Rightarrow> 'v \<Rightarrow> 'v history_entry list \<Rightarrow> 'v history_entry list" where
  "page_setPriceHistory now p prev =
     (let newHistory = prev @ [\<lparr>timestamp = now, prices = p\<rparr>]
      in slice newHistory (- 20) None)"

definition page_setOpportunities :: "'v \<Rightarrow> 'v list \<Rightarrow> 'v list" where
  "page_setOpportunities d prev = slice (d # prev) 0 (Some 10)"

definition page_setTrades :: "'v \<Rightarrow> 'v list \<Rightarrow> 'v list" where
  "page_setTrades d prev = slice (d # prev) 0 (Some 10)"

definition page_market_update ::
  "'v js_runtime \<Rightarrow> string \<Rightarrow> string \<Rightarrow> 'v \<Rightarrow> 'v dashboard \<Rightarrow> 'v handled" where
  "page_market_update rt selectedPair now data st =
     (case get_prop rt data ''type'' of
        Inl e \<Rightarrow> (st, Some e)
      | Inr ty \<Rightarrow>
     if \<not> strict_eq_string rt ty ''market_update'' then (st, None)
     else
       case get_prop rt data ''data'' of
         Inl e \<Rightarrow> (st, Some e)
       | Inr d \<Rightarrow>
       let st1 = st\<lparr>marketData := d\<rparr> in
       case get_prop rt d selectedPair of
         Inl e \<Rightarrow> (st1, Some e)
       | Inr q \<Rightarrow>
       if \<not> truthy rt q then (st1, None)
       else
         case get_prop rt d selectedPair of
           Inl e \<Rightarrow> (st1, Some e)
         | Inr q' \<Rightarrow>
         case get_prop rt q' ''prices'' of
           Inl e \<Rightarrow> (st1, Some e)
         | Inr p \<Rightarrow>
             (st1\<lparr>priceHistory := page_setPriceHistory now p (priceHistory st1)\<rparr>, None))"

definition page_arbitrage_opportunity ::
  "'v js_runtime \<Rightarrow> 'v \<Rightarrow> 'v dashboard \<Rightarrow> 'v handled" where
  "page_arbitrage_opportunity rt data st =
     (case get_prop rt data ''type'' of
        Inl e \<Rightarrow> (st, Some e)
      | Inr ty \<Rightarrow>
     if \<not> strict_eq_string rt ty ''arbitrage_opportunity'' then (st, None)
     else
       case get_prop rt data ''data'' of
         Inl e \<Rightarrow> (st, Some e)
       | Inr d \<Rightarrow> (st\<lparr>opportunities := page_setOpportunities d (opportunities st)\<rparr>, None))"

definition page_trade_execution ::
  "'v js_runtime \<Rightarrow> 'v \<Rightarrow> 'v dashboard \<Rightarrow> 'v handled" where
  "page_trade_execution rt data st =
     (case get_prop rt data ''type'' of
        Inl e \<Rightarrow> (st, Some e)
      | Inr ty \<Rightarrow>
     if \<not> strict_eq_string rt ty ''trade_execution'' then (st, None)
     else
       case get_prop rt data ''data'' of
         Inl e \<Rightarrow> (st, Some e)
       | Inr d \<Rightarrow> (st\<lparr>trades := page_setTrades d (trades st)\<rparr>, None))"

definition page_onmessage ::
  "'v js_runtime \<Rightarrow> string \<Rightarrow> string \<Rightarrow> js_error + 'v \<Rightarrow> 'v dashboard \<Rightarrow> 'v handled" where
  "page_onmessage rt selectedPair now parsed st =
     (case parsed of
        Inl e \<Rightarrow> (st, Some e)
      | Inr data \<Rightarrow>
          and_then (and_then (page_market_update rt selectedPair now data st)
                      (page_arbitrage_opportunity rt data))
            (page_trade_execution rt data))"

subsection \<open>Sequences of messages\<close>

text \<open>
  One incoming message: the pair selected when it arrives, the clock reading, and the outcome
  of parsing its text. The socket stays open when a handler throws, so the next message is
  handled on the state the previous one left.
\<close>

type_synonym 'v incoming = "string \<times> string \<times> (js_error + 'v)"

fun replay ::
  "(string \<Rightarrow> string \<Rightarrow> js_error + 'v \<Rightarrow> 'v dashboard \<Rightarrow> 'v handled) \<Rightarrow>
   'v incoming list \<Rightarrow> 'v dashboard \<Rightarrow> 'v dashboard" where
  "replay h [] st = st"
| "replay h ((selectedPair, now, parsed) # ms) st =
     replay h ms (fst (h selectedPair now parsed st))"

definition within_limits :: "'v dashboard \<Rightarrow> bool" where
  "within_limits st \<longleftrightarrow>
     length (opportunities st) \<le> 10 \<and> length (trades st) \<le> 10 \<and>
     length (priceHistory st) \<le> 20"

subsection \<open>A small runtime to run the handlers on\<close>

text \<open>
  JSON values with \<open>undefined\<close>, numbers as integers, and objects with their own
  properties only.
\<close>

datatype json =
    JUndefined | JNull | JBool bool | JNum int | JStr string
  | JArr "json list" | JObj "(string \<times> json) list"

fun json_get :: "json \<Rightarrow> string \<Rightarrow> js_error + json" where
  "json_get JUndefined k = Inl TypeError"
| "json_get JNull k = Inl TypeError"
| "json_get (JObj kvs) k = (case map_of kvs k of None \<Rightarrow> Inr JUndefined | Some v \<Rightarrow> Inr v)"
| "json_get v k = Inr JUndefined"

fun json_truthy :: "json \<Rightarrow> bool" where
  "json_truthy JUndefined = False"
| "json_truthy JNull = False"
| "json_truthy (JBool b) = b"
| "json_truthy (JNum n) = (n \<noteq> 0)"
| "json_truthy (JStr s) = (s \<noteq> [])"
| "json_truthy v = True"

definition demo_rt :: "json js_runtime" where
  "demo_rt = \<lparr>get_prop = json_get, truthy = json_truthy,
              strict_eq_string = (\<lambda>v s. v = JStr s)\<rparr>"

definition empty_dashboard :: "json dashboard" where
  "empty_dashboard = \<lparr>opportunities = [], trades = [], marketData = JObj [], priceHistory = []\<rparr>"

definition opportunity_msg :: "int \<Rightarrow> json incoming" where
  "opportunity_msg n =
     (''BTC/USDT'', ''12:00:00'',
      Inr (JObj [(''type'', JStr ''arbitrage_opportunity''), (''data'', JNum n)]))"

definition market_msg :: "int \<Rightarrow> json incoming" where
  "market_msg n =
     (''BTC/USDT'', ''12:00:00'',
      Inr (JObj [(''type'', JStr ''market_update''),
                 (''data'', JObj [(''BTC/USDT'', JObj [(''prices'', JNum n)])])]))"

definition twelve_messages :: "json incoming list" where
  "twelve_messages =
     [opportunity_msg 1, opportunity_msg 2, opportunity_msg 3, opportunity_msg 4,
      opportunity_msg 5, market_msg 7, opportunity_msg 6, opportunity_msg 7, opportunity_msg 8,
      opportunity_msg 9, opportunity_msg 10, opportunity_msg 11, opportunity_msg 12]"

section \<open>The opportunity detector\<close>

text \<open>
  The detector and the orchestrator are the service behind the socket that the dashboards
  listen to; their code is not among the sources, so they are modelled from the spec.
  Prices and amounts are integers in the smallest unit.
\<close>

record PriceQuote =
  venue :: string
  pair :: string
  bidPrice :: int
  askPrice :: int
  baseLiquidity :: int
  observedAt :: int

record Opportunity =
  opportunityPair :: string
  buyVenue :: string
  sellVenue :: string
  buyPrice :: int
  sellPrice :: int
  notional :: int
  estimatedProfit :: int
  estimatedProfitBps :: int
  detectedAt :: int
  fingerprint :: string

text \<open>
  What the spec leaves to configuration: the notional, the fee and gas estimates, the
  threshold, the staleness window, how a profit is expressed in basis points (from the
  profit, the buy price and the notional), and the hash that makes a fingerprint of pair,
  venues, price and time.
\<close>

record detector_config =
  tradeNotional :: int
  feeEstimate :: "string \<Rightarrow> int"
  gasEstimate :: int
  minThresholdBps :: int
  staleness_window :: int
  profitBps :: "int \<Rightarrow> int \<Rightarrow> int \<Rightarrow> int"
  fingerprintOf :: "string \<Rightarrow> string \<Rightarrow> string \<Rightarrow> int \<Rightarrow> int \<Rightarrow> string"

text \<open>
  Modelled from the spec: \<open>activeQuotes(pair)\<close> of the Market State Store, which is not
  among the sources. "Any quote older than \<open>staleness_window\<close> is excluded from
  \<open>activeQuotes(pair)\<close> used for detection."
\<close>

definition activeQuotes :: "detector_config \<Rightarrow> int \<Rightarrow> PriceQuote list \<Rightarrow> PriceQuote list" where
  "activeQuotes cfg now qs = filter (\<lambda>q. now - observedAt q \<le> staleness_window cfg) qs"

text \<open>
  Modelled from the spec: the candidate the Opportunity Detector computes for an ordered
  pair of venues; the detector is not among the sources.
  "\<open>grossSpread = sellPrice(v_sell).bid - buyPrice(v_buy).ask\<close>;
  \<open>estimatedProfit = grossSpread * notional - feeEstimate(v_buy) - feeEstimate(v_sell) -
  gasEstimate\<close>."
\<close>

definition grossSpread :: "PriceQuote \<Rightarrow> PriceQuote \<Rightarrow> int" where
  "grossSpread b s = bidPrice s - askPrice b"

definition candidate :: "detector_config \<Rightarrow> int \<Rightarrow> PriceQuote \<Rightarrow> PriceQuote \<Rightarrow> Opportunity" where
  "candidate cfg now b s =
     (let profit = grossSpread b s * tradeNotional cfg
                     - feeEstimate cfg (venue b) - feeEstimate cfg (venue s) - gasEstimate cfg
      in \<lparr>opportunityPair = pair b,
          buyVenue = venue b,
          sellVenue = venue s,
          buyPrice = askPrice b,
          sellPrice = bidPrice s,
          notional = tradeNotional cfg,
          estimatedProfit = profit,
          estimatedProfitBps = profitBps cfg profit (askPrice b) (tradeNotional cfg),
          detectedAt = now,
          fingerprint = fingerprintOf cfg (pair b) (venue b) (venue s) (askPrice b) now\<rparr>)"

text \<open>
  Modelled from the spec: the candidates of one detection run, "for every ordered pair of
  venues \<open>(v_buy, v_sell)\<close> with \<open>v_buy \<noteq> v_sell\<close> among active quotes", and the test
  "emit an \<open>Opportunity\<close> only if \<open>estimatedProfit > 0\<close> and
  \<open>estimatedProfitBps \<ge> minThresholdBps\<close>".
\<close>

definition candidates :: "detector_config \<Rightarrow> int \<Rightarrow> PriceQuote list \<Rightarrow> Opportunity list" where
  "candidates cfg now qs =
     concat (map (\<lambda>b. map (candidate cfg now b) (filter (\<lambda>s. venue b \<noteq> venue s) qs)) qs)"

definition qualifies :: "detector_config \<Rightarrow> Opportunity \<Rightarrow> bool" where
  "qualifies cfg opp \<longleftrightarrow>
     estimatedProfit opp > 0 \<and> estimatedProfitBps opp \<ge> minThresholdBps cfg"

text \<open>
  Modelled from the spec: the tie-break of the detector. "Select the single candidate with
  the highest \<open>estimatedProfit\<close>; ties broken by lexicographic venue-pair ordering."
\<close>

fun string_less :: "string \<Rightarrow> string \<Rightarrow> bool" where
  "string_less [] [] = False"
| "string_less [] (y # ys) = True"
| "string_less (x # xs) [] = False"
| "string_less (x # xs) (y # ys) =
     ((of_char x :: nat) < of_char y \<or> (x = y \<and> string_less xs ys))"

definition preferred :: "Opportunity \<Rightarrow> Opportunity \<Rightarrow> bool" where
  "preferred a b \<longleftrightarrow>
     estimatedProfit a > estimatedProfit b \<or>
     (estimatedProfit a = estimatedProfit b \<and>
      (string_less (buyVenue a) (buyVenue b) \<or>
       (buyVenue a = buyVenue b \<and> string_less (sellVenue a) (sellVenue b))))"

fun select_best :: "Opportunity list \<Rightarrow> Opportunity option" where
  "select_best [] = None"
| "select_best (x # xs) =
     (case select_best xs of
        None \<Rightarrow> Some x
      | Some y \<Rightarrow> if preferred y x then Some y else Some x)"

text \<open>
  Modelled from the spec: one run of the Opportunity Detector over the quotes of a pair.
  \<open>inflight\<close> holds the fingerprints that are \<open>PENDING\<close> or \<open>SUBMITTED\<close> in the
  orchestrator: "an \<open>Opportunity\<close> sharing the same \<open>fingerprint\<close> as one already
  \<open>PENDING\<close>/\<open>SUBMITTED\<close> in the Orchestrator is suppressed".
\<close>

definition detect ::
  "detector_config \<Rightarrow> int \<Rightarrow> PriceQuote list \<Rightarrow> string list \<Rightarrow> Opportunity option" where
  "detect cfg now qs inflight =
     (case select_best (filter (qualifies cfg) (candidates cfg now (activeQuotes cfg now qs))) of
        None \<Rightarrow> None
      | Some opp \<Rightarrow> if fingerprint opp \<in> set inflight then None else Some opp)"

text \<open>
  Scenario A of the spec: venue V1 quotes bid 100, ask 101 and venue V2 quotes bid 103,
  ask 104 for pair X. The configuration trades 10 units, with a fee estimate of 1 per
  venue, a gas estimate of 2 and a threshold of 50 basis points.
\<close>

definition demo_config :: detector_config where
  "demo_config =
     \<lparr>tradeNotional = 10,
      feeEstimate = (\<lambda>v. 1),
      gasEstimate = 2,
      minThresholdBps = 50,
      staleness_window = 5,
      profitBps = (\<lambda>profit price n. profit * 10000 div (price * n)),
      fingerprintOf = (\<lambda>p b s price t. p @ ''|'' @ b @ ''|'' @ s)\<rparr>"

definition scenario_A :: "PriceQuote list" where
  "scenario_A =
     [\<lparr>venue = ''V1'', pair = ''X'', bidPrice = 100, askPrice = 101,
        baseLiquidity = 50, observedAt = 1000\<rparr>,
      \<lparr>venue = ''V2'', pair = ''X'', bidPrice = 103, askPrice = 104,
        baseLiquidity = 50, observedAt = 1001\<rparr>]"

section \<open>The execution orchestrator\<close>

datatype status = PENDING | SUBMITTED | CONFIRMED | REVERTED | FAILED

record TradeExecution =
  opportunityFingerprint :: string
  status :: status
  txHash :: "string option"
  realizedProfit :: "int option"
  error :: "string option"
  startedAt :: int
  completedAt :: "int option"

definition non_terminal :: "status \<Rightarrow> bool" where
  "non_terminal s \<longleftrightarrow> s = PENDING \<or> s = SUBMITTED"

text \<open>
  Modelled from the spec: \<open>submit(opportunity)\<close> of the Execution Orchestrator, which is
  not among the sources. "\<open>submit(opportunity)\<close> is rejected (no-op) if a non-terminal
  execution already exists for that fingerprint." The check and the insertion are one
  atomic step, as the spec's per-fingerprint lock (or compare-and-swap on the status)
  makes them.
\<close>

definition submit :: "Opportunity \<Rightarrow> int \<Rightarrow> TradeExecution list \<Rightarrow> TradeExecution list" where
  "submit opp now es =
     (if \<exists>e \<in> set es. opportunityFingerprint e = fingerprint opp \<and> non_terminal (status e)
      then es
      else es @ [\<lparr>opportunityFingerprint = fingerprint opp, status = PENDING, txHash = None,
                   realizedProfit = None, error = None, startedAt = now,
                   completedAt = None\<rparr>])"

text \<open>
  Modelled from the spec: the transitions of a \<open>TradeExecution\<close>,
  "\<open>PENDING \<rightarrow> SUBMITTED \<rightarrow> {CONFIRMED | REVERTED | FAILED}\<close>; transitions are the only
  mutations; terminal states are immutable". A pending execution is sent to the contract
  and becomes \<open>SUBMITTED\<close>; a submitted one is resolved as \<open>CONFIRMED\<close> with the realized
  profit, \<open>REVERTED\<close> with the revert reason, or \<open>FAILED\<close> after a timeout; a queued
  execution that is cancelled is dropped.
\<close>

datatype resolution = Confirmed int | Reverted string | TimedOut

definition mark_submitted :: "string \<Rightarrow> string \<Rightarrow> TradeExecution list \<Rightarrow> TradeExecution list" where
  "mark_submitted fp tx es =
     map (\<lambda>e. if opportunityFingerprint e = fp \<and> status e = PENDING
               then e\<lparr>status := SUBMITTED, txHash := Some tx\<rparr> else e) es"

fun resolved :: "resolution \<Rightarrow> int \<Rightarrow> TradeExecution \<Rightarrow> TradeExecution" where
  "resolved (Confirmed profit) now e =
     e\<lparr>status := CONFIRMED, realizedProfit := Some profit, completedAt := Some now\<rparr>"
| "resolved (Reverted reason) now e =
     e\<lparr>status := REVERTED, error := Some reason, completedAt := Some now\<rparr>"
| "resolved TimedOut now e =
     e\<lparr>status := FAILED, error := Some ''timeout'', completedAt := Some now\<rparr>"

definition resolve ::
  "string \<Rightarrow> resolution \<Rightarrow> int \<Rightarrow> TradeExecution list \<Rightarrow> TradeExecution list" where
  "resolve fp r now es =
     map (\<lambda>e. if opportunityFingerprint e = fp \<and> status e = SUBMITTED
               then resolved r now e else e) es"

definition cancel :: "string \<Rightarrow> TradeExecution list \<Rightarrow> TradeExecution list" where
  "cancel fp es = filter (\<lambda>e. \<not> (opportunityFingerprint e = fp \<and> status e = PENDING)) es"

text \<open>
  Concurrent use of the orchestrator is an interleaving of these atomic steps, in any
  order and for any fingerprints.
\<close>

datatype action =
    Submit Opportunity int
  | MarkSubmitted string string
  | Resolve string resolution int
  | Cancel string

fun step :: "action \<Rightarrow> TradeExecution list \<Rightarrow> TradeExecution list" where
  "step (Submit opp now) es = submit opp now es"
| "step (MarkSubmitted fp tx) es = mark_submitted fp tx es"
| "step (Resolve fp r now) es = resolve fp r now es"
| "step (Cancel fp) es = cancel fp es"

fun run :: "action list \<Rightarrow> TradeExecution list \<Rightarrow> TradeExecution list" where
  "run [] es = es"
| "run (a # as) es = run as (step a es)"

definition active :: "TradeExecution list \<Rightarrow> string \<Rightarrow> TradeExecution list" where
  "active es fp = filter (\<lambda>e. opportunityFingerprint e = fp \<and> non_terminal (status e)) es"

definition is_submit_of :: "string \<Rightarrow> action \<Rightarrow> bool" where
  "is_submit_of fp a = (case a of Submit opp now \<Rightarrow> fingerprint opp = fp | _ \<Rightarrow> False)"

definition demo_opportunity :: Opportunity where
  "demo_opportunity =
     \<lparr>opportunityPair = ''X'', buyVenue = ''V1'', sellVenue = ''V2'', buyPrice = 101,
       sellPrice = 103, notional = 10, estimatedProfit = 16, estimatedProfitBps = 158,
       detectedAt = 1002, fingerprint = ''X|V1|V2''\<rparr>"


section \<open>Properties of the settlement contract\<close>

text \<open>
  Two facts about \<open>executeArbitrage\<close> that the theorems below share: what must have
  happened when it completes, and what it returns once both legs and both balance queries
  have gone through.
\<close>

lemma executeArbitrage_completes:
  assumes "outcome (executeArbitrage env sender token buyDex sellDex buyData sellData amount w) = Inr w'"
  shows "owner w = sender \<and> approvedDexRouters w buyDex \<and> approvedDexRouters w sellDex \<and>
    (\<exists>b0 w1 b1.
       ext_balanceOf env w token (self env) = Some b0 \<and>
       ext_call env w buyDex buyData = Some w1 \<and>
       ext_call env w1 sellDex sellData = Some w' \<and>
       ext_balanceOf env w' token (self env) = Some b1 \<and> b0 < b1)"
  using assms
  by (auto simp: executeArbitrage_def onlyOwner_def failed_def completed_def checked_sub_def Let_def
      split: option.splits if_splits)

lemma executeArbitrage_run:
  assumes "owner w = sender" "approvedDexRouters w buyDex" "approvedDexRouters w sellDex"
    "ext_balanceOf env w token (self env) = Some b0"
    "ext_call env w buyDex buyData = Some w1"
    "ext_call env w1 sellDex sellData = Some w2"
    "ext_balanceOf env w2 token (self env) = Some b1"
  shows "executeArbitrage env sender token buyDex sellDex buyData sellData amount w =
    (if b0 < b1
     then completed w2 [ArbitrageExecuted token buyDex sellDex amount (b1 - b0)]
       [BalanceOfCall token (self env), LowLevelCall buyDex buyData,
        LowLevelCall sellDex sellData, BalanceOfCall token (self env)]
     else failed (Revert ''No profit generated'')
       [BalanceOfCall token (self env), LowLevelCall buyDex buyData,
        LowLevelCall sellDex sellData, BalanceOfCall token (self env)])"
  using assms
  by (auto simp: executeArbitrage_def onlyOwner_def checked_sub_def Let_def)

lemma demo_simps:
  "owner demo_world = 0xA0"
  "approvedDexRouters demo_world r = (r = 0xD1 \<or> r = 0xD2 \<or> r = 0xD3)"
  "chain demo_world = 100"
  "self demo_env = 0xC0"
  "ext_balanceOf demo_env w token account =
     (if token = 0x70 then Some (if account = 0xC0 then chain w else 0) else None)"
  "ext_call demo_env w target data =
     (if target = 0xD1 then Some (w\<lparr>chain := chain w + of_nat (length data)\<rparr>)
      else if target = 0xD2 \<and> of_nat (length data) \<le> chain w
        then Some (w\<lparr>chain := chain w - of_nat (length data)\<rparr>)
      else None)"
  "ext_transfer demo_env w token to amount =
     (if token \<noteq> 0x70 then None
      else if amount \<le> chain w then Some (True, w\<lparr>chain := chain w - amount\<rparr>)
      else Some (False, w))"
  "ext_approve demo_env w token spender amount =
     (if token \<noteq> 0x70 then None else Some (True, w))"
  by (simp_all add: demo_env_def demo_world_def)

text \<open>
  C1. When both legs of \<open>executeArbitrage\<close> succeed and the contract's balance of the
  token after them is less than or equal to the balance recorded before the buy leg, the
  invocation fails with "No profit generated", it emits no event, and the world that
  persists is the one before the call. Whenever the invocation completes, both legs
  succeeded and the final balance is strictly greater than the initial one.
\<close>

theorem executeArbitrage_profit_invariant:
  "(owner w = sender \<and> approvedDexRouters w buyDex \<and> approvedDexRouters w sellDex \<and>
    ext_balanceOf env w token (self env) = Some initialBalance \<and>
    ext_call env w buyDex buyData = Some w1 \<and>
    ext_call env w1 sellDex sellData = Some w2 \<and>
    ext_balanceOf env w2 token (self env) = Some finalBalance \<and>
    finalBalance \<le> initialBalance \<longrightarrow>
      outcome (executeArbitrage env sender token buyDex sellDex buyData sellData amount w)
        = Inl (Revert ''No profit generated'') \<and>
      events (executeArbitrage env sender token buyDex sellDex buyData sellData amount w) = [] \<and>
      transact w (executeArbitrage env sender token buyDex sellDex buyData sellData amount w) = w)
   \<and>
   (outcome (executeArbitrage env sender token buyDex sellDex buyData sellData amount w) = Inr w'
      \<longrightarrow> (\<exists>b0 v b1.
        ext_balanceOf env w token (self env) = Some b0 \<and>
        ext_call env w buyDex buyData = Some v \<and>
        ext_call env v sellDex sellData = Some w' \<and>
        ext_balanceOf env w' token (self env) = Some b1 \<and> b0 < b1))"
proof (intro conjI impI)
  assume a: "owner w = sender \<and> approvedDexRouters w buyDex \<and> approvedDexRouters w sellDex \<and>
    ext_balanceOf env w token (self env) = Some initialBalance \<and>
    ext_call env w buyDex buyData = Some w1 \<and>
    ext_call env w1 sellDex sellData = Some w2 \<and>
    ext_balanceOf env w2 token (self env) = Some finalBalance \<and>
    finalBalance \<le> initialBalance"
  then have run: "executeArbitrage env sender token buyDex sellDex buyData sellData amount w =
      failed (Revert ''No profit generated'')
       [BalanceOfCall token (self env), LowLevelCall buyDex buyData,
        LowLevelCall sellDex sellData, BalanceOfCall token (self env)]"
    by (simp add: executeArbitrage_run [where ?b0.0 = initialBalance and ?b1.0 = finalBalance] not_less [symmetric])
  show "outcome (executeArbitrage env sender token buyDex sellDex buyData sellData amount w)
        = Inl (Revert ''No profit generated'')"
    by (simp add: run failed_def)
  show "events (executeArbitrage env sender token buyDex sellDex buyData sellData amount w) = []"
    by (simp add: run failed_def)
  show "transact w (executeArbitrage env sender token buyDex sellDex buyData sellData amount w) = w"
    by (simp add: run failed_def transact_def)
next
  assume "outcome (executeArbitrage env sender token buyDex sellDex buyData sellData amount w) = Inr w'"
  from executeArbitrage_completes [OF this]
  show "\<exists>b0 v b1.
        ext_balanceOf env w token (self env) = Some b0 \<and>
        ext_call env w buyDex buyData = Some v \<and>
        ext_call env v sellDex sellData = Some w' \<and>
        ext_balanceOf env w' token (self env) = Some b1 \<and> b0 < b1"
    by blast
qed

theorem executeArbitrage_profit_invariant_witness:
  "outcome (executeArbitrage demo_env 0xA0 0x70 0xD1 0xD2 [1, 2] [1, 2, 3] 5 demo_world)
     = Inl (Revert ''No profit generated'') \<and>
   events (executeArbitrage demo_env 0xA0 0x70 0xD1 0xD2 [1, 2] [1, 2, 3] 5 demo_world) = [] \<and>
   transact demo_world
     (executeArbitrage demo_env 0xA0 0x70 0xD1 0xD2 [1, 2] [1, 2, 3] 5 demo_world) = demo_world \<and>
   outcome (executeArbitrage demo_env 0xA0 0x70 0xD1 0xD2 [1, 2, 3] [1, 2] 5 demo_world)
     = Inr (demo_world\<lparr>chain := 101\<rparr>) \<and>
   (\<exists>b0 v b1.
        ext_balanceOf demo_env demo_world 0x70 (self demo_env) = Some b0 \<and>
        ext_call demo_env demo_world 0xD1 [1, 2, 3] = Some v \<and>
        ext_call demo_env v 0xD2 [1, 2] = Some (demo_world\<lparr>chain := 101\<rparr>) \<and>
        ext_balanceOf demo_env (demo_world\<lparr>chain := 101\<rparr>) 0x70 (self demo_env) = Some b1 \<and>
        b0 < b1)"
proof -
  have ok: "outcome (executeArbitrage demo_env 0xA0 0x70 0xD1 0xD2 [1, 2, 3] [1, 2] 5 demo_world)
     = Inr (demo_world\<lparr>chain := 101\<rparr>)"
    by (simp add: executeArbitrage_def demo_simps onlyOwner_def checked_sub_def completed_def)
  have "owner demo_world = 0xA0 \<and> approvedDexRouters demo_world 0xD1 \<and>
    approvedDexRouters demo_world 0xD2 \<and>
    ext_balanceOf demo_env demo_world 0x70 (self demo_env) = Some 100 \<and>
    ext_call demo_env demo_world 0xD1 [1, 2] = Some (demo_world\<lparr>chain := 102\<rparr>) \<and>
    ext_call demo_env (demo_world\<lparr>chain := 102\<rparr>) 0xD2 [1, 2, 3] = Some (demo_world\<lparr>chain := 99\<rparr>) \<and>
    ext_balanceOf demo_env (demo_world\<lparr>chain := 99\<rparr>) 0x70 (self demo_env) = Some 99 \<and>
    (99 :: uint256) \<le> 100"
    by (simp add: demo_simps)
  with executeArbitrage_profit_invariant
    [of demo_world "0xA0" "0xD1" "0xD2" demo_env "0x70" 100 "[1, 2]"
        "demo_world\<lparr>chain := 102\<rparr>" "[1, 2, 3]" "demo_world\<lparr>chain := 99\<rparr>" 99 5]
    executeArbitrage_profit_invariant
    [of demo_world "0xA0" "0xD1" "0xD2" demo_env "0x70" _ "[1, 2, 3]" _ "[1, 2]" _ _ 5
        "demo_world\<lparr>chain := 101\<rparr>"]
    ok
  show ?thesis by blast
qed

text \<open>
  C2. When \<open>buyDex\<close> or \<open>sellDex\<close> is not approved in \<open>approvedDexRouters\<close>,
  \<open>executeArbitrage\<close> fails with an authorization error whoever calls it, it has made no
  external call at all (no balance query and no leg call), it emits no event, and the world
  that persists is the one before the call.
\<close>

theorem executeArbitrage_router_allow_list:
  "\<not> approvedDexRouters w buyDex \<or> \<not> approvedDexRouters w sellDex \<Longrightarrow>
   (\<exists>e. outcome (executeArbitrage env sender token buyDex sellDex buyData sellData amount w)
          = Inl e \<and> is_authorization_error e) \<and>
   calls (executeArbitrage env sender token buyDex sellDex buyData sellData amount w) = [] \<and>
   events (executeArbitrage env sender token buyDex sellDex buyData sellData amount w) = [] \<and>
   transact w (executeArbitrage env sender token buyDex sellDex buyData sellData amount w) = w"
  by (auto simp: executeArbitrage_def onlyOwner_def failed_def transact_def)

theorem executeArbitrage_router_allow_list_witness:
  "\<not> approvedDexRouters demo_world 0xD9 \<and>
   outcome (executeArbitrage demo_env 0xA0 0x70 0xD9 0xD2 [1] [2] 5 demo_world)
     = Inl (Revert ''Buy DEX not approved'') \<and>
   outcome (executeArbitrage demo_env 0xA0 0x70 0xD1 0xD9 [1] [2] 5 demo_world)
     = Inl (Revert ''Sell DEX not approved'') \<and>
   calls (executeArbitrage demo_env 0xA0 0x70 0xD9 0xD2 [1] [2] 5 demo_world) = [] \<and>
   calls (executeArbitrage demo_env 0xA0 0x70 0xD1 0xD9 [1] [2] 5 demo_world) = [] \<and>
   transact demo_world (executeArbitrage demo_env 0xA0 0x70 0xD9 0xD2 [1] [2] 5 demo_world)
     = demo_world"
  using executeArbitrage_router_allow_list
          [of demo_world "0xD9" "0xD2" demo_env "0xA0" "0x70" "[1]" "[2]" 5]
        executeArbitrage_router_allow_list
          [of demo_world "0xD1" "0xD9" demo_env "0xA0" "0x70" "[1]" "[2]" 5]
  by (simp add: demo_simps executeArbitrage_def onlyOwner_def failed_def)

text \<open>
  C3. Once \<open>executeArbitrage\<close> has passed its checks and read the initial balance: when
  the buy call signals failure the invocation fails with "Buy transaction failed" without
  calling the sell router, the world that persists is the one before the call, and the
  contract's token balance in it is the initial balance; when the buy call succeeds and the
  sell call, made on the world the buy call left, signals failure, the invocation fails with
  "Sell transaction failed" and the world that persists is again the one before the call.
  The external calls of any invocation are an initial segment of: balance query, buy call,
  sell call, balance query.
\<close>

theorem executeArbitrage_leg_failure:
  assumes "owner w = sender" and "approvedDexRouters w buyDex" and "approvedDexRouters w sellDex"
    and "ext_balanceOf env w token (self env) = Some initialBalance"
  shows "(ext_call env w buyDex buyData = None \<longrightarrow>
      executeArbitrage env sender token buyDex sellDex buyData sellData amount w =
        failed (Revert ''Buy transaction failed'')
          [BalanceOfCall token (self env), LowLevelCall buyDex buyData] \<and>
      transact w (executeArbitrage env sender token buyDex sellDex buyData sellData amount w) = w \<and>
      ext_balanceOf env
        (transact w (executeArbitrage env sender token buyDex sellDex buyData sellData amount w))
        token (self env) = Some initialBalance) \<and>
    (ext_call env w buyDex buyData = Some w1 \<and> ext_call env w1 sellDex sellData = None \<longrightarrow>
      executeArbitrage env sender token buyDex sellDex buyData sellData amount w =
        failed (Revert ''Sell transaction failed'')
          [BalanceOfCall token (self env), LowLevelCall buyDex buyData,
           LowLevelCall sellDex sellData] \<and>
      transact w (executeArbitrage env sender token buyDex sellDex buyData sellData amount w) = w) \<and>
    (\<exists>n. calls (executeArbitrage env sender token buyDex sellDex buyData sellData amount w) =
       take n [BalanceOfCall token (self env), LowLevelCall buyDex buyData,
               LowLevelCall sellDex sellData, BalanceOfCall token (self env)])"
proof (intro conjI impI)
  assume b: "ext_call env w buyDex buyData = None"
  then show r: "executeArbitrage env sender token buyDex sellDex buyData sellData amount w =
        failed (Revert ''Buy transaction failed'')
          [BalanceOfCall token (self env), LowLevelCall buyDex buyData]"
    using assms by (simp add: executeArbitrage_def onlyOwner_def)
  show t: "transact w (executeArbitrage env sender token buyDex sellDex buyData sellData amount w) = w"
    by (simp add: r failed_def transact_def)
  show "ext_balanceOf env
        (transact w (executeArbitrage env sender token buyDex sellDex buyData sellData amount w))
        token (self env) = Some initialBalance"
    by (simp only: t assms)
next
  assume s: "ext_call env w buyDex buyData = Some w1 \<and> ext_call env w1 sellDex sellData = None"
  then show r: "executeArbitrage env sender token buyDex sellDex buyData sellData amount w =
        failed (Revert ''Sell transaction failed'')
          [BalanceOfCall token (self env), LowLevelCall buyDex buyData,
           LowLevelCall sellDex sellData]"
    using assms by (simp add: executeArbitrage_def onlyOwner_def)
  show "transact w (executeArbitrage env sender token buyDex sellDex buyData sellData amount w) = w"
    by (simp add: r failed_def transact_def)
next
  let ?cs = "[BalanceOfCall token (self env), LowLevelCall buyDex buyData,
               LowLevelCall sellDex sellData, BalanceOfCall token (self env)]"
  have "calls (executeArbitrage env sender token buyDex sellDex buyData sellData amount w)
          \<in> {take 2 ?cs, take 3 ?cs, take 4 ?cs}"
    using assms
    by (simp add: executeArbitrage_def onlyOwner_def failed_def completed_def Let_def
        split: option.splits)
  then show "\<exists>n. calls (executeArbitrage env sender token buyDex sellDex buyData sellData amount w) =
       take n ?cs"
    by blast
qed

theorem executeArbitrage_leg_failure_witness:
  "executeArbitrage demo_env 0xA0 0x70 0xD3 0xD2 [1] [2] 5 demo_world =
     failed (Revert ''Buy transaction failed'')
       [BalanceOfCall 0x70 0xC0, LowLevelCall 0xD3 [1]] \<and>
   transact demo_world (executeArbitrage demo_env 0xA0 0x70 0xD3 0xD2 [1] [2] 5 demo_world)
     = demo_world \<and>
   ext_balanceOf demo_env
     (transact demo_world (executeArbitrage demo_env 0xA0 0x70 0xD3 0xD2 [1] [2] 5 demo_world))
     0x70 0xC0 = Some 100 \<and>
   executeArbitrage demo_env 0xA0 0x70 0xD1 0xD3 [1] [2] 5 demo_world =
     failed (Revert ''Sell transaction failed'')
       [BalanceOfCall 0x70 0xC0, LowLevelCall 0xD1 [1], LowLevelCall 0xD3 [2]] \<and>
   transact demo_world (executeArbitrage demo_env 0xA0 0x70 0xD1 0xD3 [1] [2] 5 demo_world)
     = demo_world"
  using executeArbitrage_leg_failure
          [where w = demo_world and sender = "0xA0" and buyDex = "0xD3" and sellDex = "0xD2"
             and env = demo_env and token = "0x70" and initialBalance = 100
             and buyData = "[1]" and sellData = "[2]" and amount = 5]
        executeArbitrage_leg_failure
          [where w = demo_world and sender = "0xA0" and buyDex = "0xD1" and sellDex = "0xD3"
             and env = demo_env and token = "0x70" and initialBalance = 100
             and buyData = "[1]" and sellData = "[2]" and amount = 5
             and ?w1.0 = "demo_world\<lparr>chain := 101\<rparr>"]
  by (simp add: demo_simps transact_def failed_def)

text \<open>
  C4. When \<open>executeArbitrage\<close> is called by the owner with approved routers, both legs
  succeed and the final balance exceeds the initial one, the invocation completes with the
  world the sell leg left and emits exactly one event, \<open>ArbitrageExecuted\<close>, whose profit
  field is the final balance minus the initial balance; the subtraction does not wrap
  around and the profit is positive.
\<close>

theorem executeArbitrage_emits_profit:
  assumes "owner w = sender" and "approvedDexRouters w buyDex" and "approvedDexRouters w sellDex"
    and "ext_balanceOf env w token (self env) = Some initialBalance"
    and "ext_call env w buyDex buyData = Some w1"
    and "ext_call env w1 sellDex sellData = Some w2"
    and "ext_balanceOf env w2 token (self env) = Some finalBalance"
    and "initialBalance < finalBalance"
  shows "outcome (executeArbitrage env sender token buyDex sellDex buyData sellData amount w)
           = Inr w2 \<and>
    events (executeArbitrage env sender token buyDex sellDex buyData sellData amount w)
      = [ArbitrageExecuted token buyDex sellDex amount (finalBalance - initialBalance)] \<and>
    unat (finalBalance - initialBalance) = unat finalBalance - unat initialBalance \<and>
    0 < unat (finalBalance - initialBalance)"
proof -
  have "executeArbitrage env sender token buyDex sellDex buyData sellData amount w =
      completed w2 [ArbitrageExecuted token buyDex sellDex amount (finalBalance - initialBalance)]
       [BalanceOfCall token (self env), LowLevelCall buyDex buyData,
        LowLevelCall sellDex sellData, BalanceOfCall token (self env)]"
    using assms by (simp add: executeArbitrage_run)
  moreover have "unat (finalBalance - initialBalance) = unat finalBalance - unat initialBalance"
    using assms(8) by (simp add: unat_sub)
  moreover have "unat initialBalance < unat finalBalance"
    using assms(8) by (simp add: word_less_nat_alt)
  ultimately show ?thesis
    by (simp add: completed_def)
qed

theorem executeArbitrage_emits_profit_witness:
  "outcome (executeArbitrage demo_env 0xA0 0x70 0xD1 0xD2 [1, 2, 3] [1, 2] 5 demo_world)
     = Inr (demo_world\<lparr>chain := 101\<rparr>) \<and>
   events (executeArbitrage demo_env 0xA0 0x70 0xD1 0xD2 [1, 2, 3] [1, 2] 5 demo_world)
     = [ArbitrageExecuted 0x70 0xD1 0xD2 5 1]"
  using executeArbitrage_emits_profit
          [where w = demo_world and sender = "0xA0" and buyDex = "0xD1" and sellDex = "0xD2"
             and env = demo_env and token = "0x70" and initialBalance = 100
             and buyData = "[1, 2, 3]" and sellData = "[1, 2]" and amount = 5
             and ?w1.0 = "demo_world\<lparr>chain := 103\<rparr>"
             and ?w2.0 = "demo_world\<lparr>chain := 101\<rparr>" and finalBalance = 101]
  by (simp add: demo_simps)

text \<open>
  C5. Each of the four entry points \<open>setDexRouterApproval\<close>, \<open>executeArbitrage\<close>,
  \<open>withdrawFunds\<close> and \<open>approveToken\<close>, called by anyone but the owner, fails with
  the authorization error of \<open>onlyOwner\<close>, makes no external call, emits no event, and
  the world that persists is the one before the call.
\<close>

theorem entry_points_owner_only:
  assumes "sender \<noteq> owner w"
  shows "setDexRouterApproval sender router approved w
           = failed (OwnableUnauthorizedAccount sender) [] \<and>
    executeArbitrage env sender token buyDex sellDex buyData sellData amount w
           = failed (OwnableUnauthorizedAccount sender) [] \<and>
    withdrawFunds env sender token to amount w = failed (OwnableUnauthorizedAccount sender) [] \<and>
    approveToken env sender token spender amount w
           = failed (OwnableUnauthorizedAccount sender) [] \<and>
    is_authorization_error (OwnableUnauthorizedAccount sender) \<and>
    transact w (failed (OwnableUnauthorizedAccount sender) []) = w"
  using assms
  by (auto simp: setDexRouterApproval_def executeArbitrage_def withdrawFunds_def
      approveToken_def onlyOwner_def transact_def failed_def)

theorem entry_points_owner_only_witness:
  "(0xBAD :: address) \<noteq> owner demo_world \<and>
   setDexRouterApproval 0xBAD 0xD9 True demo_world
     = failed (OwnableUnauthorizedAccount 0xBAD) [] \<and>
   executeArbitrage demo_env 0xBAD 0x70 0xD1 0xD2 [1, 2, 3] [1, 2] 5 demo_world
     = failed (OwnableUnauthorizedAccount 0xBAD) [] \<and>
   withdrawFunds demo_env 0xBAD 0x70 0xBAD 100 demo_world
     = failed (OwnableUnauthorizedAccount 0xBAD) [] \<and>
   approveToken demo_env 0xBAD 0x70 0xBAD 100 demo_world
     = failed (OwnableUnauthorizedAccount 0xBAD) [] \<and>
   transact demo_world (failed (OwnableUnauthorizedAccount 0xBAD) []) = demo_world"
  using entry_points_owner_only
          [where sender = "0xBAD" and w = demo_world and router = "0xD9" and approved = True
             and env = demo_env and token = "0x70" and buyDex = "0xD1" and sellDex = "0xD2"
             and buyData = "[1, 2, 3]" and sellData = "[1, 2]" and amount = 5]
        entry_points_owner_only
          [where sender = "0xBAD" and w = demo_world and env = demo_env and token = "0x70"
             and to = "0xBAD" and spender = "0xBAD" and amount = 100]
  by (simp add: demo_simps)

text \<open>
  C6. \<open>setDexRouterApproval\<close> is idempotent: as transactions, calling it twice in
  succession with the same router and flag leaves the same world as calling it once. When
  the caller is the owner, the router's entry of \<open>approvedDexRouters\<close> is the flag after
  the call and no other entry, nor the owner or the rest of the chain, has changed.
\<close>

theorem setDexRouterApproval_idempotent:
  "transact (transact w (setDexRouterApproval sender r b w))
     (setDexRouterApproval sender r b (transact w (setDexRouterApproval sender r b w)))
     = transact w (setDexRouterApproval sender r b w) \<and>
   (sender = owner w \<longrightarrow>
      approvedDexRouters (transact w (setDexRouterApproval sender r b w)) r = b \<and>
      (\<forall>r'. r' \<noteq> r \<longrightarrow>
         approvedDexRouters (transact w (setDexRouterApproval sender r b w)) r'
           = approvedDexRouters w r') \<and>
      owner (transact w (setDexRouterApproval sender r b w)) = owner w \<and>
      chain (transact w (setDexRouterApproval sender r b w)) = chain w)"
  by (simp add: setDexRouterApproval_def onlyOwner_def transact_def failed_def completed_def)

theorem setDexRouterApproval_idempotent_witness:
  "(0xA0 :: address) = owner demo_world \<and>
   approvedDexRouters (transact demo_world (setDexRouterApproval 0xA0 0xD1 False demo_world)) 0xD1
     = False \<and>
   approvedDexRouters (transact demo_world (setDexRouterApproval 0xA0 0xD1 False demo_world)) 0xD2
     = True \<and>
   transact (transact demo_world (setDexRouterApproval 0xA0 0xD1 False demo_world))
     (setDexRouterApproval 0xA0 0xD1 False
        (transact demo_world (setDexRouterApproval 0xA0 0xD1 False demo_world)))
     = transact demo_world (setDexRouterApproval 0xA0 0xD1 False demo_world)"
  using setDexRouterApproval_idempotent [of demo_world "0xA0" "0xD1" False]
  by (simp add: demo_simps)

text \<open>
  C9. \<open>withdrawFunds\<close> does not look at the boolean that \<open>transfer\<close> returns: called
  by the owner, whenever the transfer call does not revert, it completes and emits
  \<open>FundsWithdrawn(token, to, amount)\<close>, whether the token returned \<open>true\<close> or
  \<open>false\<close>.
\<close>

theorem withdrawFunds_ignores_transfer_result:
  assumes "sender = owner w"
    and "ext_transfer env w token to amount = Some (ok, w1)"
  shows "withdrawFunds env sender token to amount w =
    completed w1 [FundsWithdrawn token to amount] [TransferCall token to amount]"
  using assms by (simp add: withdrawFunds_def onlyOwner_def)

theorem withdrawFunds_ignores_transfer_result_witness:
  "ext_transfer demo_env demo_world 0x70 0xB0 500 = Some (False, demo_world) \<and>
   withdrawFunds demo_env 0xA0 0x70 0xB0 500 demo_world =
     completed demo_world [FundsWithdrawn 0x70 0xB0 500] [TransferCall 0x70 0xB0 500] \<and>
   ext_balanceOf demo_env
     (transact demo_world (withdrawFunds demo_env 0xA0 0x70 0xB0 500 demo_world)) 0x70 0xC0
     = Some 100"
  using withdrawFunds_ignores_transfer_result
          [where sender = "0xA0" and w = demo_world and env = demo_env and token = "0x70"
             and to = "0xB0" and amount = 500 and ok = False and ?w1.0 = demo_world]
  by (simp add: demo_simps transact_def completed_def)

section \<open>Properties of the dashboards\<close>

text \<open>What the calls of \<open>slice\<close> in the two files compute.\<close>

lemma slice_first: "slice xs 0 (Some (int n)) = take n xs"
  by (simp add: slice_def Let_def min_def)

lemma slice_last: "0 < n \<Longrightarrow> slice xs (- int n) None = drop (length xs - n) xs"
proof (cases "length xs \<le> n")
  case True
  assume "0 < n"
  with True show ?thesis
    by (simp add: slice_def Let_def max_def)
next
  case False
  assume "0 < n"
  from False have k: "nat (int (length xs) - int n) = length xs - n"
    by arith
  from False have m: "max (int (length xs) - int n) 0 = int (length xs) - int n"
    by (simp add: max_def)
  from \<open>0 < n\<close> have "slice xs (- int n) None =
      take (nat (int (length xs) - max (int (length xs) - int n) 0))
        (drop (nat (max (int (length xs) - int n) 0)) xs)"
    by (simp add: slice_def Let_def)
  also have "\<dots> = take n (drop (length xs - n) xs)"
    by (simp only: m k) simp
  also have "\<dots> = drop (length xs - n) xs"
    using False by simp
  finally show ?thesis .
qed

lemma slice_from: "n \<le> length xs \<Longrightarrow> slice xs (int (length xs) - int n) None = drop (length xs - n) xs"
  by (simp add: slice_def Let_def min_def nat_diff_distrib')

lemma setPriceHistory_eq:
  "index_setPriceHistory now p prev = page_setPriceHistory now p prev"
proof -
  let ?h = "prev @ [\<lparr>timestamp = now, prices = p\<rparr>]"
  have p: "page_setPriceHistory now p prev = drop (length ?h - 20) ?h"
    using slice_last [of 20 ?h] by (simp add: page_setPriceHistory_def Let_def)
  show ?thesis
  proof (cases "length ?h > 20")
    case True
    then have "index_setPriceHistory now p prev = slice ?h (int (length ?h) - int 20) None"
      by (simp add: index_setPriceHistory_def Let_def)
    also have "\<dots> = drop (length ?h - 20) ?h"
      using True by (intro slice_from) simp
    finally show ?thesis by (simp only: p)
  next
    case False
    then have "index_setPriceHistory now p prev = ?h"
      by (simp add: index_setPriceHistory_def Let_def)
    with False show ?thesis by (simp add: p)
  qed
qed

lemma page_setPriceHistory_drop:
  "page_setPriceHistory now p prev =
     drop (Suc (length prev) - 20) (prev @ [\<lparr>timestamp = now, prices = p\<rparr>])"
  using slice_last [of 20 "prev @ [\<lparr>timestamp = now, prices = p\<rparr>]"]
  by (simp add: page_setPriceHistory_def Let_def)

lemma page_setOpportunities_take: "page_setOpportunities d prev = take 10 (d # prev)"
  using slice_first [of "d # prev" 10] by (simp add: page_setOpportunities_def)

lemma page_setTrades_take: "page_setTrades d prev = take 10 (d # prev)"
  using slice_first [of "d # prev" 10] by (simp add: page_setTrades_def)

lemma setOpportunities_eq: "index_setOpportunities d prev = page_setOpportunities d prev"
  by (simp add: index_setOpportunities_def page_setOpportunities_def Let_def slice_def)

lemma setTrades_eq: "index_setTrades d prev = page_setTrades d prev"
  by (simp add: index_setTrades_def page_setTrades_def Let_def slice_def)

lemma onmessage_eq:
  "index_onmessage rt selectedPair now parsed = page_onmessage rt selectedPair now parsed"
proof -
  have m: "index_market_update rt selectedPair now = page_market_update rt selectedPair now"
    by (intro ext) (simp add: index_market_update_def page_market_update_def setPriceHistory_eq Let_def
        split: sum.splits)
  have a: "index_arbitrage_opportunity rt = page_arbitrage_opportunity rt"
    by (intro ext)
      (simp add: index_arbitrage_opportunity_def page_arbitrage_opportunity_def
        setOpportunities_eq split: sum.splits)
  have t: "index_trade_execution rt = page_trade_execution rt"
    by (intro ext)
      (simp add: index_trade_execution_def page_trade_execution_def setTrades_eq
        split: sum.splits)
  show ?thesis
    by (intro ext) (simp add: index_onmessage_def page_onmessage_def m a t split: sum.splits)
qed

lemma and_then_limits:
  assumes "within_limits (fst r)" and "\<And>st. within_limits st \<Longrightarrow> within_limits (fst (f st))"
  shows "within_limits (fst (and_then r f))"
  using assms by (cases r) (auto simp: and_then_def split: option.splits)

lemma page_market_update_limits:
  "within_limits st \<Longrightarrow> within_limits (fst (page_market_update rt selectedPair now data st))"
  by (auto simp: page_market_update_def within_limits_def page_setPriceHistory_drop Let_def
      split: sum.splits)

lemma page_arbitrage_opportunity_limits:
  "within_limits st \<Longrightarrow> within_limits (fst (page_arbitrage_opportunity rt data st))"
  by (auto simp: page_arbitrage_opportunity_def within_limits_def page_setOpportunities_take
      split: sum.splits)

lemma page_trade_execution_limits:
  "within_limits st \<Longrightarrow> within_limits (fst (page_trade_execution rt data st))"
  by (auto simp: page_trade_execution_def within_limits_def page_setTrades_take
      split: sum.splits)

lemma page_onmessage_limits:
  "within_limits st \<Longrightarrow> within_limits (fst (page_onmessage rt selectedPair now parsed st))"
  unfolding page_onmessage_def
  by (cases parsed)
    (simp_all add: and_then_limits page_market_update_limits
      page_arbitrage_opportunity_limits page_trade_execution_limits)

lemma replay_page_limits:
  "within_limits st \<Longrightarrow> within_limits (replay (page_onmessage rt) ms st)"
  by (induction ms arbitrary: st) (auto simp: page_onmessage_limits)

text \<open>
  C10. The two handlers are the same function of the parsed message, the selected pair, the
  clock and the state: on every message they leave the same \<open>marketData\<close>,
  \<open>opportunities\<close>, \<open>trades\<close> and \<open>priceHistory\<close> and throw the same exception, so
  they leave the same state after every sequence of messages. A state that holds at most 10
  opportunities, 10 trades and 20 history entries (as the initial state does) still does
  after any sequence of messages. The updaters keep the 10 newest opportunities and trades
  (the new one first) and the 20 newest history entries (the new one last).
\<close>

theorem dashboards_equivalent:
  "index_onmessage rt selectedPair now parsed st = page_onmessage rt selectedPair now parsed st \<and>
   replay (index_onmessage rt) ms st = replay (page_onmessage rt) ms st \<and>
   (within_limits st \<longrightarrow> within_limits (replay (index_onmessage rt) ms st)) \<and>
   index_setOpportunities d prev = take 10 (d # prev) \<and>
   index_setTrades d prev = take 10 (d # prev) \<and>
   index_setPriceHistory now p hist =
     drop (Suc (length hist) - 20) (hist @ [\<lparr>timestamp = now, prices = p\<rparr>])"
proof -
  have e: "index_onmessage rt = page_onmessage rt"
    by (intro ext) (simp add: onmessage_eq)
  show ?thesis
    by (simp add: e replay_page_limits setOpportunities_eq setTrades_eq setPriceHistory_eq
        page_setOpportunities_take page_setTrades_take page_setPriceHistory_drop)
qed

theorem dashboards_equivalent_witness:
  "within_limits empty_dashboard \<and>
   within_limits (replay (index_onmessage demo_rt) twelve_messages empty_dashboard) \<and>
   replay (index_onmessage demo_rt) twelve_messages empty_dashboard
     = replay (page_onmessage demo_rt) twelve_messages empty_dashboard \<and>
   opportunities (replay (page_onmessage demo_rt) twelve_messages empty_dashboard)
     = map JNum [12, 11, 10, 9, 8, 7, 6, 5, 4, 3] \<and>
   priceHistory (replay (page_onmessage demo_rt) twelve_messages empty_dashboard)
     = [\<lparr>timestamp = ''12:00:00'', prices = JNum 7\<rparr>]"
proof -
  have l: "within_limits empty_dashboard"
    by (simp add: within_limits_def empty_dashboard_def)
  have r: "opportunities (replay (page_onmessage demo_rt) twelve_messages empty_dashboard)
       = map JNum [12, 11, 10, 9, 8, 7, 6, 5, 4, 3] \<and>
     priceHistory (replay (page_onmessage demo_rt) twelve_messages empty_dashboard)
       = [\<lparr>timestamp = ''12:00:00'', prices = JNum 7\<rparr>]"
    by (simp add: twelve_messages_def opportunity_msg_def market_msg_def page_onmessage_def
        and_then_def page_market_update_def page_arbitrage_opportunity_def
        page_trade_execution_def demo_rt_def empty_dashboard_def page_setOpportunities_take
        page_setPriceHistory_drop)
  from l r dashboards_equivalent [where rt = demo_rt and ms = twelve_messages
      and st = empty_dashboard and selectedPair = "''BTC/USDT''" and now = "''12:00:00''"
      and parsed = "Inl SyntaxError" and d = JNull and prev = "[]" and p = JNull
      and hist = "[]"]
  show ?thesis by blast
qed

section \<open>Properties of the opportunity detector\<close>

lemma select_best_member: "select_best xs = Some x \<Longrightarrow> x \<in> set xs"
  by (induction xs arbitrary: x) (auto split: option.splits if_splits)

lemma candidates_member:
  "opp \<in> set (candidates cfg now qs) \<Longrightarrow>
     \<exists>b s. b \<in> set qs \<and> s \<in> set qs \<and> venue b \<noteq> venue s \<and> opp = candidate cfg now b s"
  by (auto simp: candidates_def)

text \<open>
  C7. Every \<open>Opportunity\<close> the detector emits has \<open>estimatedProfit > 0\<close> and
  \<open>estimatedProfitBps \<ge> minThresholdBps\<close>, and is the candidate of two active quotes
  of different venues; no candidate below either bound is emitted.
\<close>

theorem detect_threshold_invariant:
  assumes "detect cfg now qs inflight = Some opp"
  shows "estimatedProfit opp > 0 \<and> estimatedProfitBps opp \<ge> minThresholdBps cfg \<and>
    (\<exists>b s. b \<in> set (activeQuotes cfg now qs) \<and> s \<in> set (activeQuotes cfg now qs) \<and>
       venue b \<noteq> venue s \<and> opp = candidate cfg now b s)"
proof -
  from assms have
    "select_best (filter (qualifies cfg) (candidates cfg now (activeQuotes cfg now qs))) = Some opp"
    by (auto simp: detect_def split: option.splits if_splits)
  then have "opp \<in> set (filter (qualifies cfg) (candidates cfg now (activeQuotes cfg now qs)))"
    by (rule select_best_member)
  then have q: "qualifies cfg opp" and c: "opp \<in> set (candidates cfg now (activeQuotes cfg now qs))"
    by simp_all
  from q have "estimatedProfit opp > 0 \<and> estimatedProfitBps opp \<ge> minThresholdBps cfg"
    by (simp add: qualifies_def)
  with candidates_member [OF c] show ?thesis by blast
qed


lemma scenario_A_detect:
  "detect demo_config 1002 scenario_A [] =
     Some \<lparr>opportunityPair = ''X'', buyVenue = ''V1'', sellVenue = ''V2'', buyPrice = 101,
       sellPrice = 103, notional = 10, estimatedProfit = 16, estimatedProfitBps = 158,
       detectedAt = 1002, fingerprint = ''X|V1|V2''\<rparr>"
  by (simp add: detect_def demo_config_def scenario_A_def activeQuotes_def candidates_def
      candidate_def grossSpread_def qualifies_def)

theorem detect_threshold_invariant_witness:
  "detect demo_config 1002 scenario_A [] =
     Some \<lparr>opportunityPair = ''X'', buyVenue = ''V1'', sellVenue = ''V2'', buyPrice = 101,
       sellPrice = 103, notional = 10, estimatedProfit = 16, estimatedProfitBps = 158,
       detectedAt = 1002, fingerprint = ''X|V1|V2''\<rparr> \<and>
   (16 :: int) > 0 \<and> (158 :: int) \<ge> minThresholdBps demo_config"
  using detect_threshold_invariant [OF scenario_A_detect]
  by (simp add: scenario_A_detect)

section \<open>Properties of the execution orchestrator\<close>

text \<open>No transition adds a second non-terminal execution to a fingerprint.\<close>

lemma filter_map_le:
  assumes "\<And>e. P (f e) \<Longrightarrow> Q e"
  shows "length (filter P (map f es)) \<le> length (filter Q es)"
  using assms by (induction es) (auto simp: le_SucI)

lemma active_submit: "length (active es fp) \<le> 1 \<Longrightarrow> length (active (submit opp now es) fp) \<le> 1"
  by (auto simp: submit_def active_def non_terminal_def filter_empty_conv)

lemma active_mark_submitted:
  "length (active (mark_submitted fp' tx es) fp) \<le> length (active es fp)"
  unfolding active_def mark_submitted_def
  by (rule filter_map_le) (auto simp: non_terminal_def split: if_splits)

lemma active_resolve:
  "length (active (resolve fp' r now es) fp) \<le> length (active es fp)"
  unfolding active_def resolve_def
  by (rule filter_map_le) (cases r; auto simp: non_terminal_def split: if_splits)

lemma active_cancel: "length (active (cancel fp' es) fp) \<le> length (active es fp)"
proof -
  have "active (cancel fp' es) fp =
      filter (\<lambda>e. \<not> (opportunityFingerprint e = fp' \<and> status e = PENDING)) (active es fp)"
    by (auto simp: active_def cancel_def intro: filter_cong)
  then show ?thesis by simp
qed

lemma active_step: "length (active es fp) \<le> 1 \<Longrightarrow> length (active (step a es) fp) \<le> 1"
proof (cases a)
  case (Submit opp now)
  assume "length (active es fp) \<le> 1"
  with Submit active_submit [of es fp opp now] show ?thesis by simp
next
  case (MarkSubmitted fp' tx)
  assume "length (active es fp) \<le> 1"
  with MarkSubmitted active_mark_submitted [of fp' tx es fp] show ?thesis by simp
next
  case (Resolve fp' r now)
  assume "length (active es fp) \<le> 1"
  with Resolve active_resolve [of fp' r now es fp] show ?thesis by simp
next
  case (Cancel fp')
  assume "length (active es fp) \<le> 1"
  with Cancel active_cancel [of fp' es fp] show ?thesis by simp
qed

lemma active_run: "length (active es fp) \<le> 1 \<Longrightarrow> length (active (run as es) fp) \<le> 1"
proof (induction as arbitrary: es)
  case Nil
  then show ?case by simp
next
  case (Cons a as)
  from Cons.prems have "length (active (step a es) fp) \<le> 1"
    by (rule active_step)
  then have "length (active (run as (step a es)) fp) \<le> 1"
    by (rule Cons.IH)
  then show ?case by simp
qed

lemma submit_rejected:
  "\<exists>e \<in> set es. opportunityFingerprint e = fingerprint opp \<and> non_terminal (status e) \<Longrightarrow>
   submit opp now es = es"
  by (simp add: submit_def)

lemma run_duplicates:
  assumes "\<forall>a \<in> set as. is_submit_of fp a"
    and "\<exists>e \<in> set es. opportunityFingerprint e = fp \<and> non_terminal (status e)"
  shows "run as es = es"
  using assms
proof (induction as)
  case Nil
  then show ?case by simp
next
  case (Cons a as)
  then obtain opp now where a: "a = Submit opp now" and f: "fingerprint opp = fp"
    by (cases a) (auto simp: is_submit_of_def)
  with Cons.prems(2) have "step a es = es"
    by (simp add: submit_def)
  with Cons show ?case by simp
qed

text \<open>
  C8. In every state the orchestrator reaches from the empty one, by any sequence of
  submissions, transitions and cancellations, each fingerprint has at most one non-terminal
  execution. \<open>submit\<close> changes nothing when a non-terminal execution exists for the
  opportunity's fingerprint. When an opportunity is submitted, then any number of
  opportunities with the same fingerprint are submitted, and the execution is sent to the
  contract, exactly one execution exists for the fingerprint and it is \<open>SUBMITTED\<close>.
\<close>

theorem at_most_one_concurrent_execution:
  "length (active (run as []) fp) \<le> 1 \<and>
   ((\<exists>e \<in> set es. opportunityFingerprint e = fingerprint opp \<and> non_terminal (status e))
      \<longrightarrow> submit opp now es = es) \<and>
   (fingerprint opp = fp \<and> (\<forall>a \<in> set dups. is_submit_of fp a) \<longrightarrow>
      map status (filter (\<lambda>e. opportunityFingerprint e = fp)
        (run (Submit opp now # dups @ [MarkSubmitted fp tx]) [])) = [SUBMITTED])"
proof (intro conjI impI)
  have "length (active [] fp) \<le> 1"
    by (simp add: active_def)
  then show "length (active (run as []) fp) \<le> 1"
    by (rule active_run)
next
  assume "\<exists>e \<in> set es. opportunityFingerprint e = fingerprint opp \<and> non_terminal (status e)"
  then show "submit opp now es = es"
    by (rule submit_rejected)
next
  assume a: "fingerprint opp = fp \<and> (\<forall>a \<in> set dups. is_submit_of fp a)"
  let ?e = "\<lparr>opportunityFingerprint = fp, status = PENDING, txHash = None,
     realizedProfit = None, error = None, startedAt = now, completedAt = None\<rparr>"
  from a have first: "step (Submit opp now) [] = [?e]"
    by (simp add: submit_def)
  have "run dups [?e] = [?e]"
    using a by (intro run_duplicates [where fp = fp]) (simp_all add: non_terminal_def)
  moreover have "run (xs @ ys) es' = run ys (run xs es')" for xs ys es'
    by (induction xs arbitrary: es') simp_all
  ultimately have "run (Submit opp now # dups @ [MarkSubmitted fp tx]) [] =
      mark_submitted fp tx [?e]"
    using first by simp
  then show "map status (filter (\<lambda>e. opportunityFingerprint e = fp)
        (run (Submit opp now # dups @ [MarkSubmitted fp tx]) [])) = [SUBMITTED]"
    by (simp add: mark_submitted_def)
qed

theorem at_most_one_concurrent_execution_witness:
  "run [Submit demo_opportunity 1, Submit demo_opportunity 2,
        Submit (demo_opportunity\<lparr>notional := 11\<rparr>) 3, MarkSubmitted ''X|V1|V2'' ''0xabc''] []
     = [\<lparr>opportunityFingerprint = ''X|V1|V2'', status = SUBMITTED, txHash = Some ''0xabc'',
         realizedProfit = None, error = None, startedAt = 1, completedAt = None\<rparr>] \<and>
   map status (filter (\<lambda>e. opportunityFingerprint e = ''X|V1|V2'')
     (run [Submit demo_opportunity 1, Submit demo_opportunity 2,
        Submit (demo_opportunity\<lparr>notional := 11\<rparr>) 3, MarkSubmitted ''X|V1|V2'' ''0xabc''] []))
     = [SUBMITTED] \<and>
   submit demo_opportunity 2 (submit demo_opportunity 1 []) = submit demo_opportunity 1 []"
  using at_most_one_concurrent_execution
    [where opp = demo_opportunity and fp = "''X|V1|V2''" and now = 1 and tx = "''0xabc''"
       and dups = "[Submit demo_opportunity 2, Submit (demo_opportunity\<lparr>notional := 11\<rparr>) 3]"
       and es = "submit demo_opportunity 1 []" and as = "[]"]
  by (simp add: demo_opportunity_def is_submit_of_def submit_def mark_submitted_def
      non_terminal_def)

end
